theory Spec2Isabelle
  imports Main
begin

section \<open>Data model (App.tsx, lines 81 to 100)\<close>

text \<open>
  The outcome of a game is a union of four string literals in the source; the datatype
  has one constructor per literal and \<open>outcome_str\<close> gives the literal back.
\<close>

datatype outcome = Win | NonConvergence | Repetition | InvalidWord

fun outcome_str :: "outcome \<Rightarrow> string" where
  "outcome_str Win = ''win''"
| "outcome_str NonConvergence = ''non_convergence''"
| "outcome_str Repetition = ''repetition''"
| "outcome_str InvalidWord = ''invalid_word''"

text \<open>
  \<open>GameResult\<close>: numbers are integers, \<open>converged_word\<close> is a string or null
  (\<open>None\<close>).
\<close>

record GameResult =
  outcome :: outcome
  rounds :: int
  converged_word :: "string option"
  player1_model :: string
  player2_model :: string
  player1_words :: "string list"
  player2_words :: "string list"
  seed_word1 :: string
  seed_word2 :: string
  game_number :: int
  timestamp :: string

text \<open>
  \<open>Round\<close>: the two words are what indexing the word arrays returned. Reading a
  JavaScript array past its end gives \<open>undefined\<close>, which is \<open>None\<close> here, so a word
  of a round is a \<open>string option\<close>.
\<close>

record Round =
  number :: int
  player1_word :: "string option"
  player2_word :: "string option"
  converged :: bool

section \<open>The round deriver (App.tsx, getRounds, lines 109 to 120)\<close>

text \<open>\<open>xs[i]\<close> in JavaScript: the element, or \<open>undefined\<close> out of range.\<close>

definition js_index :: "'a list \<Rightarrow> nat \<Rightarrow> 'a option" where
  "js_index xs i = (if i < length xs then Some (xs ! i) else None)"

text \<open>
  The \<open>for\<close> loop of \<open>getRounds\<close>, with the loop index and the array built so far as
  arguments. The loop is bounded by the length of \<open>player1_words\<close> only. The strict
  equality \<open>===\<close> of two values that are each a string or \<open>undefined\<close> is equality of
  \<open>string option\<close>.
\<close>

function getRounds_loop :: "GameResult \<Rightarrow> nat \<Rightarrow> Round list \<Rightarrow> Round list" where
  "getRounds_loop game i acc =
     (if i < length (player1_words game)
      then getRounds_loop game (i + 1)
             (acc @ [\<lparr> number = int i + 1,
                       player1_word = js_index (player1_words game) i,
                       player2_word = js_index (player2_words game) i,
                       converged = (js_index (player1_words game) i = js_index (player2_words game) i) \<rparr>])
      else acc)"
  by pat_completeness auto
termination
  by (relation "measure (\<lambda>(game, i, acc). length (player1_words game) - i)") auto

definition getRounds :: "GameResult \<Rightarrow> Round list" where
  "getRounds game = getRounds_loop game 0 []"

section \<open>The playback controller (App.tsx, GameViewer, lines 122 to 141)\<close>

text \<open>
  The state of the component is the number \<open>currentRound\<close>, an \<open>int\<close> here so that
  its sign is a property to prove.
\<close>

definition isPlaying :: "int \<Rightarrow> bool" where
  "isPlaying currentRound = (currentRound > 0)"

text \<open>
  \<open>Array.prototype.slice(start, end)\<close>: a negative bound counts from the end of the
  array, both bounds are clamped to the array, and an empty range gives the empty array.
\<close>

definition js_slice :: "'a list \<Rightarrow> int \<Rightarrow> int \<Rightarrow> 'a list" where
  "js_slice xs start fin =
     (let len = int (length xs);
          k = (if start < 0 then max (len + start) 0 else min start len);
          final = (if fin < 0 then max (len + fin) 0 else min fin len)
      in take (nat (final - k)) (drop (nat k) xs))"

definition visibleRounds :: "GameResult \<Rightarrow> int \<Rightarrow> Round list" where
  "visibleRounds game currentRound = js_slice (getRounds game) 0 currentRound"

text \<open>The four handlers; each returns the new value of \<open>currentRound\<close>.\<close>

definition stepForward :: "GameResult \<Rightarrow> int \<Rightarrow> int" where
  "stepForward game currentRound =
     (if currentRound < int (length (getRounds game)) then currentRound + 1 else currentRound)"

definition stepBackward :: "int \<Rightarrow> int" where
  "stepBackward currentRound = (if currentRound > 0 then currentRound - 1 else currentRound)"

definition reset :: "int \<Rightarrow> int" where
  "reset currentRound = 0"

definition playAll :: "GameResult \<Rightarrow> int \<Rightarrow> int" where
  "playAll game currentRound = int (length (getRounds game))"

text \<open>
  A viewing session is a finite sequence of handler calls, starting from the initial
  state \<open>useState(0)\<close>.
\<close>

datatype transition = StepForward | StepBackward | Reset | PlayAll

fun fire :: "GameResult \<Rightarrow> int \<Rightarrow> transition \<Rightarrow> int" where
  "fire game c StepForward = stepForward game c"
| "fire game c StepBackward = stepBackward c"
| "fire game c Reset = reset c"
| "fire game c PlayAll = playAll game c"

definition session :: "GameResult \<Rightarrow> transition list \<Rightarrow> int" where
  "session game ts = foldl (fire game) 0 ts"

text \<open>
  Calling \<open>stepForward\<close> again and again until a call leaves the state as it was.
  A call that changes the state moves it one step closer to the number of rounds, so
  the repetition ends.
\<close>

function stepForward_to_completion :: "GameResult \<Rightarrow> int \<Rightarrow> int" where
  "stepForward_to_completion game c =
     (if stepForward game c = c then c
      else stepForward_to_completion game (stepForward game c))"
  by pat_completeness auto
termination
  by (relation "measure (\<lambda>(game, c). nat (int (length (getRounds game)) - c))")
     (auto simp: stepForward_def split: if_splits)

section \<open>The rendered timeline (App.tsx, GameViewer, lines 170 to 212)\<close>

text \<open>
  The element tree the component returns for its timeline: an element has a tag, a class
  name and children; a child is also a literal text, a string-valued expression (\<open>None\<close>
  for null or undefined, which render as nothing) or a number-valued expression.
  A conditional child \<open>cond && element\<close> is present when \<open>cond\<close> holds and absent
  otherwise. Characters outside ASCII are given by their UTF-8 bytes.
\<close>

datatype node =
    Elem string string "node list"
  | Text string
  | StrExpr "string option"
  | NumExpr int

fun className :: "node \<Rightarrow> string" where
  "className (Elem tag cls children) = cls"
| "className (Text s) = []"
| "className (StrExpr s) = []"
| "className (NumExpr n) = []"

definition checkmark :: string where
  "checkmark = [CHR 0xE2, CHR 0x9C, CHR 0x93]"

definition xmark :: string where
  "xmark = [CHR 0xE2, CHR 0x9C, CHR 0x97]"

definition party_icon :: string where
  "party_icon = [CHR 0xF0, CHR 0x9F, CHR 0x8E, CHR 0x89]"

definition sad_icon :: string where
  "sad_icon = [CHR 0xF0, CHR 0x9F, CHR 0x98, CHR 0x9E]"

definition round_node :: "Round \<Rightarrow> node" where
  "round_node round =
     Elem ''div'' (''round '' @ (if converged round then ''converged'' else ''''))
       [Elem ''div'' ''round-number'' [Text ''Round '', NumExpr (number round)],
        Elem ''div'' ''words''
          [Elem ''div'' ''word player1'' [StrExpr (player1_word round)],
           (if converged round
            then Elem ''div'' ''converge-indicator'' [Elem ''span'' ''checkmark'' [Text checkmark]]
            else Elem ''div'' ''diverge-indicator'' [Elem ''span'' ''x'' [Text xmark]]),
           Elem ''div'' ''word player2'' [StrExpr (player2_word round)]]]"

definition start_prompt :: node where
  \<open>start_prompt =
     Elem ''div'' ''start-prompt''
       [Elem ''p'' '''' [Text ''Click "Step" or "Play All" to see the game unfold'']]\<close>

definition result_success :: "GameResult \<Rightarrow> node" where
  \<open>result_success game =
     Elem ''div'' ''result success''
       [Elem ''span'' ''icon'' [Text party_icon],
        Elem ''span'' ''''
          [Text ''Converged on "'', StrExpr (converged_word game), Text ''" in '',
           NumExpr (rounds game), Text '' rounds!'']]\<close>

definition result_failure :: "GameResult \<Rightarrow> node" where
  "result_failure game =
     Elem ''div'' ''result failure''
       [Elem ''span'' ''icon'' [Text sad_icon],
        Elem ''span'' ''''
          [Text ''Failed to converge ('', StrExpr (Some (outcome_str (outcome game))), Text '')'']]"

definition timeline :: "GameResult \<Rightarrow> int \<Rightarrow> node list" where
  "timeline game currentRound =
     map round_node (visibleRounds game currentRound)
     @ (if \<not> isPlaying currentRound then [start_prompt] else [])
     @ (if currentRound = int (length (getRounds game)) \<and> outcome game = Win
        then [result_success game] else [])
     @ (if currentRound = int (length (getRounds game)) \<and> outcome game \<noteq> Win
        then [result_failure game] else [])"

text \<open>The children of the timeline of a given class: what is shown of that kind.\<close>

definition shown :: "string \<Rightarrow> node list \<Rightarrow> node list" where
  "shown cls ns = filter (\<lambda>n. className n = cls) ns"

section \<open>The sample game (App.tsx, lines 6 to 18)\<close>

definition sampleGame :: GameResult where
  "sampleGame =
     \<lparr> outcome = Win,
       rounds = 2,
       converged_word = Some ''sand'',
       player1_model = ''claude-3-haiku-20240307'',
       player2_model = ''claude-3-haiku-20240307'',
       player1_words = [''beach'', ''sand''],
       player2_words = [''island'', ''sand''],
       seed_word1 = ''vacation'',
       seed_word2 = ''rock'',
       game_number = 1,
       timestamp = ''2025-12-17T08:08:53.877325+00:00'' \<rparr>"

section \<open>Further game records\<close>

text \<open>
  Variants of the sample game: one whose second pair of words differs in case only, one
  with no rounds, and one whose second word list is shorter than the first.
\<close>

definition mixedCaseGame :: GameResult where
  "mixedCaseGame =
     sampleGame \<lparr> rounds := 3,
                  player1_words := [''beach'', ''Sand'', ''sand''],
                  player2_words := [''island'', ''sand'', ''sand''] \<rparr>"

definition emptyGame :: GameResult where
  "emptyGame =
     sampleGame \<lparr> outcome := NonConvergence, rounds := 0, converged_word := None,
                  player1_words := [], player2_words := [] \<rparr>"

definition raggedGame :: GameResult where
  "raggedGame =
     sampleGame \<lparr> outcome := InvalidWord, converged_word := None,
                  player1_words := [''beach'', ''sand''], player2_words := [''beach''] \<rparr>"

section \<open>Facts about the round deriver\<close>

declare getRounds_loop.simps [simp del]
declare stepForward_to_completion.simps [simp del]

text \<open>The loop appends one round per index from its starting index on.\<close>

lemma getRounds_loop_unfold:
  "getRounds_loop game i acc =
     acc @ map (\<lambda>j. \<lparr> number = int j + 1,
                       player1_word = js_index (player1_words game) j,
                       player2_word = js_index (player2_words game) j,
                       converged = (js_index (player1_words game) j = js_index (player2_words game) j) \<rparr>)
             [i ..< length (player1_words game)]"
proof (induction game i acc rule: getRounds_loop.induct)
  case (1 game i acc)
  show ?case
  proof (cases "i < length (player1_words game)")
    case True
    then show ?thesis
      using "1.IH" [OF True]
      by (subst getRounds_loop.simps) (simp add: upt_conv_Cons)
  next
    case False
    then show ?thesis
      by (subst getRounds_loop.simps) simp
  qed
qed

lemma getRounds_unfold:
  "getRounds game =
     map (\<lambda>j. \<lparr> number = int j + 1,
                 player1_word = js_index (player1_words game) j,
                 player2_word = js_index (player2_words game) j,
                 converged = (js_index (player1_words game) j = js_index (player2_words game) j) \<rparr>)
       [0 ..< length (player1_words game)]"
  by (simp add: getRounds_def getRounds_loop_unfold)

lemma length_getRounds: "length (getRounds game) = length (player1_words game)"
  by (simp add: getRounds_unfold)

lemma getRounds_nth:
  assumes "i < length (player1_words game)"
  shows "getRounds game ! i =
           \<lparr> number = int i + 1,
             player1_word = js_index (player1_words game) i,
             player2_word = js_index (player2_words game) i,
             converged = (js_index (player1_words game) i = js_index (player2_words game) i) \<rparr>"
  using assms by (simp add: getRounds_unfold)

lemma number_getRounds: "map number (getRounds game) = map (\<lambda>j. int j + 1) [0 ..< length (player1_words game)]"
  by (simp add: getRounds_unfold comp_def)

section \<open>Facts about the controller\<close>

lemma fire_in_range:
  assumes "0 \<le> c" and "c \<le> int (length (getRounds game))"
  shows "0 \<le> fire game c t \<and> fire game c t \<le> int (length (getRounds game))"
  using assms
  by (cases t) (simp_all add: stepForward_def stepBackward_def reset_def playAll_def)

lemma session_snoc: "session game (ts @ [t]) = fire game (session game ts) t"
  by (simp add: session_def)

lemma session_in_range:
  "0 \<le> session game ts \<and> session game ts \<le> int (length (getRounds game))"
proof (induction ts rule: rev_induct)
  case Nil
  show ?case by (simp add: session_def)
next
  case (snoc t ts)
  then show ?case
    using fire_in_range [of "session game ts" game t] by (simp add: session_snoc)
qed

lemma stepForward_to_completion_eq:
  "c \<le> int (length (getRounds game)) \<Longrightarrow>
   stepForward_to_completion game c = int (length (getRounds game))"
proof (induction game c rule: stepForward_to_completion.induct)
  case (1 game c)
  show ?case
  proof (cases "stepForward game c = c")
    case True
    with "1.prems" have "c = int (length (getRounds game))"
      by (simp add: stepForward_def split: if_splits)
    with True show ?thesis
      by (subst stepForward_to_completion.simps) simp
  next
    case False
    with "1.prems" have "stepForward game c \<le> int (length (getRounds game))"
      by (simp add: stepForward_def split: if_splits)
    from "1.IH" [OF False this] False show ?thesis
      by (subst stepForward_to_completion.simps) simp
  qed
qed

lemma js_slice_prefix:
  "0 \<le> c \<Longrightarrow> js_slice xs 0 c = take (nat c) xs"
  by (simp add: js_slice_def Let_def min_def)

lemma map_succ_upt: "map (\<lambda>j. int j + 1) [0 ..< n] = [1 .. int n]"
proof (induction n)
  case 0
  show ?case by simp
next
  case (Suc n)
  have "[1 .. int (Suc n)] = [1 .. int n] @ [int n + 1]"
    by (simp add: upto_rec2)
  with Suc show ?case by simp
qed

lemma number_take:
  "n \<le> length (player1_words game) \<Longrightarrow> map number (take n (getRounds game)) = [1 .. int n]"
proof -
  assume le: "n \<le> length (player1_words game)"
  have "map number (take n (getRounds game)) = take n (map (\<lambda>j. int j + 1) [0 ..< length (player1_words game)])"
    by (simp add: number_getRounds take_map [symmetric])
  also have "\<dots> = map (\<lambda>j. int j + 1) [0 ..< n]"
    using le by (simp add: take_map min_def)
  finally show ?thesis by (simp add: map_succ_upt)
qed

section \<open>Facts about the timeline\<close>

text \<open>A round is rendered with a class name that starts with \<open>round\<close>, so it is none of the
  three conditional children.\<close>

lemma className_round_node:
  "className (round_node r) = ''round '' @ (if converged r then ''converged'' else '''')"
  by (simp add: round_node_def)

lemma shown_append: "shown cls (xs @ ys) = shown cls xs @ shown cls ys"
  by (simp add: shown_def)

lemma shown_rounds_start: "shown ''start-prompt'' (map round_node rs) = []"
  by (induction rs) (simp_all add: shown_def className_round_node)

lemma shown_rounds_success: "shown ''result success'' (map round_node rs) = []"
  by (induction rs) (simp_all add: shown_def className_round_node)

lemma shown_rounds_failure: "shown ''result failure'' (map round_node rs) = []"
  by (induction rs) (simp_all add: shown_def className_round_node)

lemma shown_start_prompt:
  "shown ''start-prompt'' (timeline game c) = (if c \<le> 0 then [start_prompt] else [])"
  by (simp add: timeline_def shown_append shown_rounds_start isPlaying_def)
     (simp add: shown_def start_prompt_def result_success_def result_failure_def)

lemma shown_result_success:
  "shown ''result success'' (timeline game c) =
     (if c = int (length (getRounds game)) \<and> outcome game = Win then [result_success game] else [])"
  by (simp add: timeline_def shown_append shown_rounds_success)
     (simp add: shown_def start_prompt_def result_success_def result_failure_def)

lemma shown_result_failure:
  "shown ''result failure'' (timeline game c) =
     (if c = int (length (getRounds game)) \<and> outcome game \<noteq> Win then [result_failure game] else [])"
  by (simp add: timeline_def shown_append shown_rounds_failure)
     (simp add: shown_def start_prompt_def result_success_def result_failure_def)

lemma outcome_str_not_win:
  "oc \<noteq> Win \<Longrightarrow> outcome_str oc \<in> {''non_convergence'', ''repetition'', ''invalid_word''}"
  by (cases oc) simp_all

section \<open>The claims\<close>

subsection \<open>C1: length and converged flag of the derived rounds\<close>

text \<open>
  Claim C1. When the two word lists of a game record have the same length,
  \<open>getRounds\<close> returns that many rounds, and the \<open>converged\<close> flag
  of the round at each index is true exactly when the two words at that index are the same
  string.
\<close>

theorem getRounds_converged_iff:
  assumes "length (player1_words game) = length (player2_words game)"
  shows "length (getRounds game) = length (player1_words game)
       \<and> length (getRounds game) = length (player2_words game)
       \<and> (\<forall>i < length (getRounds game).
            converged (getRounds game ! i) = (player1_words game ! i = player2_words game ! i))"
  using assms by (simp add: length_getRounds getRounds_nth js_index_def)

text \<open>
  C1 at a record with three rounds: the words of the second round differ in the case of one
  letter only and do not count as converged.
\<close>

theorem getRounds_converged_iff_witness:
  "length (player1_words mixedCaseGame) = length (player2_words mixedCaseGame)
   \<and> length (getRounds mixedCaseGame) = 3
   \<and> \<not> converged (getRounds mixedCaseGame ! 0)
   \<and> \<not> converged (getRounds mixedCaseGame ! 1)
   \<and> converged (getRounds mixedCaseGame ! 2)"
proof -
  have h: "length (player1_words mixedCaseGame) = length (player2_words mixedCaseGame)"
    by (simp add: mixedCaseGame_def)
  note t = getRounds_converged_iff [OF h]
  from t have l: "length (getRounds mixedCaseGame) = 3"
    by (simp add: mixedCaseGame_def)
  from t l have c: "\<And>i. i < 3 \<Longrightarrow> converged (getRounds mixedCaseGame ! i)
                        = (player1_words mixedCaseGame ! i = player2_words mixedCaseGame ! i)"
    by simp
  from c [of 0] c [of 1] c [of 2] h l show ?thesis
    by (simp add: mixedCaseGame_def)
qed

subsection \<open>C2: the cursor stays between 0 and the number of rounds\<close>

text \<open>
  Claim C2. Whatever finite sequence of \<open>stepForward\<close>,
  \<open>stepBackward\<close>, \<open>reset\<close> and \<open>playAll\<close> is applied to
  the initial state 0, the resulting \<open>currentRound\<close> is at least 0 and at most
  the number of derived rounds.
\<close>

theorem cursor_in_range:
  "0 \<le> session game ts \<and> session game ts \<le> int (length (getRounds game))"
  by (rule session_in_range)

subsection \<open>C3: stepping forward and then backward\<close>

text \<open>
  C3 as stated fails at the upper boundary: the sample game has two rounds, and from
  \<open>currentRound = 2\<close> the step forward changes nothing and the step backward
  then gives 1.
\<close>

theorem step_forward_backward_counterexample:
  "int (length (getRounds sampleGame)) = 2
   \<and> stepBackward (stepForward sampleGame 2) = 1
   \<and> stepBackward (stepForward sampleGame 2) \<noteq> 2"
  by (simp add: length_getRounds sampleGame_def stepForward_def stepBackward_def)

text \<open>
  Claim C3, amended. From any state with \<open>0 \<le> currentRound < N\<close> (the
  interior states and the lower boundary), \<open>stepForward\<close> followed by
  \<open>stepBackward\<close> gives the original value back. At the upper boundary
  \<open>currentRound = N\<close> the pair leaves the state unchanged only when \<open>N =
  0\<close>; when \<open>N > 0\<close> it gives \<open>N - 1\<close>.
\<close>

theorem step_forward_backward:
  "(0 \<le> c \<and> c < int (length (getRounds game)) \<longrightarrow> stepBackward (stepForward game c) = c)
   \<and> (c = int (length (getRounds game)) \<and> c = 0 \<longrightarrow> stepBackward (stepForward game c) = c)
   \<and> (c = int (length (getRounds game)) \<and> 0 < c \<longrightarrow> stepBackward (stepForward game c) = c - 1)"
  by (simp add: stepForward_def stepBackward_def)

text \<open>
  C3 amended, at the sample game (two rounds) in the states 1, 0 and 2, and at the game
  without rounds in the state 0.
\<close>

theorem step_forward_backward_witness:
  "(0 \<le> (1::int) \<and> 1 < int (length (getRounds sampleGame)) \<and> stepBackward (stepForward sampleGame 1) = 1)
   \<and> (0 \<le> (0::int) \<and> 0 < int (length (getRounds sampleGame)) \<and> stepBackward (stepForward sampleGame 0) = 0)
   \<and> (0 = int (length (getRounds emptyGame)) \<and> stepBackward (stepForward emptyGame 0) = 0)
   \<and> (2 = int (length (getRounds sampleGame)) \<and> (0::int) < 2 \<and> stepBackward (stepForward sampleGame 2) = 2 - 1)"
  using step_forward_backward [of 1 sampleGame] step_forward_backward [of 0 sampleGame]
    step_forward_backward [of 0 emptyGame] step_forward_backward [of 2 sampleGame]
  by (simp add: length_getRounds sampleGame_def emptyGame_def)

subsection \<open>C4: the result shown at the end of the playback\<close>

text \<open>
  Claim C4. When \<open>currentRound\<close> equals the number of rounds and the outcome is
  a win, the timeline shows one success result, whose text holds the converged word and the
  round count of the record, and no failure result. When \<open>currentRound\<close> equals
  the number of rounds and the outcome is not a win, the timeline shows one failure result,
  whose text holds the outcome string as it is (one of \<open>non_convergence\<close>,
  \<open>repetition\<close>, \<open>invalid_word\<close>), and no success result. When
  \<open>currentRound\<close> is below the number of rounds, neither result is shown.
\<close>

theorem result_display:
  \<open>(c = int (length (getRounds game)) \<and> outcome game = Win \<longrightarrow>
      shown ''result success'' (timeline game c) =
        [Elem ''div'' ''result success''
           [Elem ''span'' ''icon'' [Text party_icon],
            Elem ''span'' ''''
              [Text ''Converged on "'', StrExpr (converged_word game), Text ''" in '',
               NumExpr (rounds game), Text '' rounds!'']]]
      \<and> shown ''result failure'' (timeline game c) = [])
   \<and> (c = int (length (getRounds game)) \<and> outcome game \<noteq> Win \<longrightarrow>
      shown ''result failure'' (timeline game c) =
        [Elem ''div'' ''result failure''
           [Elem ''span'' ''icon'' [Text sad_icon],
            Elem ''span'' ''''
              [Text ''Failed to converge ('', StrExpr (Some (outcome_str (outcome game))), Text '')'']]]
      \<and> outcome_str (outcome game) \<in> {''non_convergence'', ''repetition'', ''invalid_word''}
      \<and> shown ''result success'' (timeline game c) = [])
   \<and> (c < int (length (getRounds game)) \<longrightarrow>
      shown ''result success'' (timeline game c) = []
      \<and> shown ''result failure'' (timeline game c) = [])\<close>
  using outcome_str_not_win [of "outcome game"]
  by (simp add: shown_result_success shown_result_failure result_success_def result_failure_def)

text \<open>
  C4 at the sample game (a win in two rounds) in the states 2 and 1, and at a record with
  outcome \<open>invalid_word\<close> in the state 2.
\<close>

theorem result_display_witness:
  \<open>(2 = int (length (getRounds sampleGame)) \<and> outcome sampleGame = Win
      \<and> shown ''result success'' (timeline sampleGame 2) =
        [Elem ''div'' ''result success''
           [Elem ''span'' ''icon'' [Text party_icon],
            Elem ''span'' ''''
              [Text ''Converged on "'', StrExpr (Some ''sand''), Text ''" in '',
               NumExpr 2, Text '' rounds!'']]]
      \<and> shown ''result failure'' (timeline sampleGame 2) = [])
   \<and> (2 = int (length (getRounds raggedGame)) \<and> outcome raggedGame \<noteq> Win
      \<and> shown ''result failure'' (timeline raggedGame 2) =
        [Elem ''div'' ''result failure''
           [Elem ''span'' ''icon'' [Text sad_icon],
            Elem ''span'' ''''
              [Text ''Failed to converge ('', StrExpr (Some ''invalid_word''), Text '')'']]]
      \<and> shown ''result success'' (timeline raggedGame 2) = [])
   \<and> (1 < int (length (getRounds sampleGame))
      \<and> shown ''result success'' (timeline sampleGame 1) = []
      \<and> shown ''result failure'' (timeline sampleGame 1) = [])\<close>
  using result_display [of 2 sampleGame] result_display [of 2 raggedGame] result_display [of 1 sampleGame]
  by (simp add: length_getRounds sampleGame_def raggedGame_def)

subsection \<open>C5: single steps\<close>

text \<open>
  Claim C5. \<open>stepForward\<close> adds one to \<open>currentRound\<close> when it is
  below the number of rounds and returns it unchanged when it equals the number of rounds;
  \<open>stepBackward\<close> subtracts one when \<open>currentRound\<close> is positive and
  returns it unchanged when it is 0.
\<close>

theorem step_exact:
  "(c < int (length (getRounds game)) \<longrightarrow> stepForward game c = c + 1)
   \<and> (c = int (length (getRounds game)) \<longrightarrow> stepForward game c = c)
   \<and> (c > 0 \<longrightarrow> stepBackward c = c - 1)
   \<and> (c = 0 \<longrightarrow> stepBackward c = c)"
  by (simp add: stepForward_def stepBackward_def)

text \<open>
  C5 at the sample game in the states 1, 2 and 0.
\<close>

theorem step_exact_witness:
  "(1 < int (length (getRounds sampleGame)) \<and> stepForward sampleGame 1 = 1 + 1)
   \<and> (2 = int (length (getRounds sampleGame)) \<and> stepForward sampleGame 2 = 2)
   \<and> ((2::int) > 0 \<and> stepBackward 2 = 2 - 1)
   \<and> stepBackward 0 = 0"
  using step_exact [of 1 sampleGame] step_exact [of 2 sampleGame] step_exact [of 0 sampleGame]
  by (simp add: length_getRounds sampleGame_def)

subsection \<open>C6: reset and playAll\<close>

text \<open>
  Claim C6. \<open>reset\<close> gives 0 and \<open>playAll\<close> gives the number of
  rounds, whatever the state was; and from every state between 0 and the number of rounds,
  calling \<open>stepForward\<close> until a call changes nothing ends, in the state
  \<open>playAll\<close> gives.
\<close>

theorem reset_playAll:
  "reset c = 0
   \<and> playAll game c = int (length (getRounds game))
   \<and> (0 \<le> c \<and> c \<le> int (length (getRounds game)) \<longrightarrow>
        stepForward_to_completion game c = playAll game c)"
  by (simp add: reset_def playAll_def stepForward_to_completion_eq)

text \<open>
  C6 at the sample game, from the states 0 and 2.
\<close>

theorem reset_playAll_witness:
  "(0::int) \<le> 0 \<and> 0 \<le> int (length (getRounds sampleGame))
   \<and> stepForward_to_completion sampleGame 0 = playAll sampleGame 0
   \<and> playAll sampleGame 0 = 2
   \<and> reset 2 = 0"
  using reset_playAll [of 0 sampleGame] reset_playAll [of 2 sampleGame]
  by (simp add: length_getRounds sampleGame_def)

subsection \<open>C7: the visible rounds\<close>

text \<open>
  Claim C7. In every state reached from 0 by the four handlers, \<open>visibleRounds\<close>
  is the prefix of the derived rounds of length \<open>currentRound\<close>: it has
  \<open>currentRound\<close> elements and they are the rounds numbered 1 to
  \<open>currentRound\<close>.
\<close>

theorem visibleRounds_prefix:
  "visibleRounds game (session game ts) = take (nat (session game ts)) (getRounds game)
   \<and> int (length (visibleRounds game (session game ts))) = session game ts
   \<and> map number (visibleRounds game (session game ts)) = [1 .. session game ts]"
proof -
  let ?c = "session game ts"
  have r: "0 \<le> ?c" "?c \<le> int (length (getRounds game))"
    using session_in_range [of game ts] by simp_all
  have v: "visibleRounds game ?c = take (nat ?c) (getRounds game)"
    using r(1) by (simp add: visibleRounds_def js_slice_prefix)
  have l: "int (length (visibleRounds game ?c)) = ?c"
    using r by (simp add: v)
  have "nat ?c \<le> length (player1_words game)"
    using r by (simp add: length_getRounds)
  from number_take [OF this] r(1) have "map number (visibleRounds game ?c) = [1 .. ?c]"
    by (simp add: v)
  with v l show ?thesis by simp
qed

subsection \<open>C8: round numbers\<close>

text \<open>
  C8 as stated fails: counting from 1, the round at index 1 of the sample game (its first
  round) has number 1, not 2.
\<close>

theorem round_number_one_based_counterexample:
  "number (getRounds sampleGame ! (1 - 1)) = 1 \<and> number (getRounds sampleGame ! (1 - 1)) \<noteq> 1 + 1"
  by (simp add: getRounds_nth sampleGame_def)

text \<open>
  Claim C8, amended. The round at index \<open>i\<close> counted from 0 has number
  \<open>i + 1\<close>; that is, the \<open>k\<close>-th round of the sequence, counted from 1, has
  number \<open>k\<close>.
\<close>

theorem round_number_one_based:
  "(i < length (getRounds game) \<longrightarrow> number (getRounds game ! i) = int i + 1)
   \<and> (1 \<le> k \<and> k \<le> length (getRounds game) \<longrightarrow> number (getRounds game ! (k - 1)) = int k)"
  by (auto simp add: length_getRounds getRounds_nth)

text \<open>
  C8 amended, at the two rounds of the sample game.
\<close>

theorem round_number_one_based_witness:
  "(0 < length (getRounds sampleGame) \<and> number (getRounds sampleGame ! 0) = 1)
   \<and> (1 < length (getRounds sampleGame) \<and> number (getRounds sampleGame ! 1) = 2)
   \<and> ((1::nat) \<le> 2 \<and> 2 \<le> length (getRounds sampleGame) \<and> number (getRounds sampleGame ! (2 - 1)) = 2)"
  using round_number_one_based [of 0 sampleGame 2] round_number_one_based [of 1 sampleGame 2]
  by (simp add: length_getRounds sampleGame_def)

subsection \<open>C9: the start prompt\<close>

text \<open>
  C9 as stated fails at the game without rounds: its initial state 0 equals the number of
  rounds, so the playback is complete, and the start prompt is shown all the same.
\<close>

theorem start_prompt_display_counterexample:
  "session emptyGame [] = 0
   \<and> int (length (getRounds emptyGame)) = 0
   \<and> shown ''start-prompt'' (timeline emptyGame 0) = [start_prompt]
   \<and> shown ''start-prompt'' (timeline emptyGame 0) \<noteq> []"
  by (simp add: session_def length_getRounds shown_start_prompt emptyGame_def)

text \<open>
  Claim C9, amended. The start prompt is shown exactly when \<open>currentRound\<close> is
  not positive (\<open>isPlaying\<close> is false), whether or not the playback is complete;
  for a game with at least one round and a state that is not negative, that is exactly when
  the playback is not complete and \<open>currentRound = 0\<close>. For a record whose first
  word list is empty, the derived round sequence is empty, the initial state equals the
  number of rounds, and the result of the game is shown in it.
\<close>

theorem start_prompt_display:
  "shown ''start-prompt'' (timeline game c) = (if c \<le> 0 then [start_prompt] else [])
   \<and> (0 \<le> c \<and> 0 < length (getRounds game) \<longrightarrow>
        (shown ''start-prompt'' (timeline game c) \<noteq> []) = (c \<noteq> int (length (getRounds game)) \<and> c = 0))
   \<and> (player1_words game = [] \<longrightarrow>
        getRounds game = []
        \<and> session game [] = int (length (getRounds game))
        \<and> shown ''result success'' (timeline game (session game [])) @ shown ''result failure'' (timeline game (session game []))
            = [if outcome game = Win then result_success game else result_failure game])"
proof -
  have a: "shown ''start-prompt'' (timeline game c) = (if c \<le> 0 then [start_prompt] else [])"
    by (rule shown_start_prompt)
  have b: "0 \<le> c \<and> 0 < length (getRounds game) \<longrightarrow>
        (shown ''start-prompt'' (timeline game c) \<noteq> []) = (c \<noteq> int (length (getRounds game)) \<and> c = 0)"
    by (auto simp add: a)
  have c: "player1_words game = [] \<longrightarrow>
        getRounds game = []
        \<and> session game [] = int (length (getRounds game))
        \<and> shown ''result success'' (timeline game (session game [])) @ shown ''result failure'' (timeline game (session game []))
            = [if outcome game = Win then result_success game else result_failure game]"
    by (simp add: getRounds_unfold session_def shown_result_success shown_result_failure)
  from a b c show ?thesis by blast
qed

text \<open>
  C9 amended, at the sample game in the states 0 and 1 and at the game without rounds in its
  initial state, where the failure result and the start prompt are both shown.
\<close>

theorem start_prompt_display_witness:
  "shown ''start-prompt'' (timeline sampleGame 0) = [start_prompt]
   \<and> shown ''start-prompt'' (timeline sampleGame 1) = []
   \<and> (0 \<le> (0::int) \<and> 0 < length (getRounds sampleGame) \<and> 0 \<noteq> int (length (getRounds sampleGame)))
   \<and> player1_words emptyGame = []
   \<and> getRounds emptyGame = []
   \<and> session emptyGame [] = int (length (getRounds emptyGame))
   \<and> shown ''result success'' (timeline emptyGame (session emptyGame [])) = []
   \<and> shown ''result failure'' (timeline emptyGame (session emptyGame [])) = [result_failure emptyGame]
   \<and> shown ''start-prompt'' (timeline emptyGame (session emptyGame [])) = [start_prompt]"
proof -
  have e: "player1_words emptyGame = []" by (simp add: emptyGame_def)
  have w: "outcome emptyGame \<noteq> Win" by (simp add: emptyGame_def)
  have s: "session emptyGame [] = 0" by (simp add: session_def)
  have n: "length (getRounds sampleGame) = 2" by (simp add: length_getRounds sampleGame_def)
  from start_prompt_display [of sampleGame 0] start_prompt_display [of sampleGame 1]
    start_prompt_display [of emptyGame 0] e w s n
  show ?thesis
    by (simp add: shown_result_success)
qed

subsection \<open>C10: word lists of different lengths\<close>

text \<open>
  Claim C10. For every game record, \<open>getRounds\<close> returns as many rounds as
  \<open>player1_words\<close> has words. At an index inside \<open>player1_words\<close>
  and past the end of \<open>player2_words\<close>, the round holds the first player's word,
  an undefined second word, and \<open>converged\<close> is false.
\<close>

theorem getRounds_bounded_by_player1:
  "length (getRounds game) = length (player1_words game)
   \<and> (\<forall>i. length (player2_words game) \<le> i \<and> i < length (player1_words game) \<longrightarrow>
         player1_word (getRounds game ! i) = Some (player1_words game ! i)
         \<and> player2_word (getRounds game ! i) = None
         \<and> \<not> converged (getRounds game ! i))"
  by (simp add: length_getRounds getRounds_nth js_index_def)

text \<open>
  C10 at a record with two words for the first player and one for the second.
\<close>

theorem getRounds_bounded_by_player1_witness:
  "length (getRounds raggedGame) = 2
   \<and> length (player2_words raggedGame) \<le> 1 \<and> 1 < length (player1_words raggedGame)
   \<and> player1_word (getRounds raggedGame ! 1) = Some ''sand''
   \<and> player2_word (getRounds raggedGame ! 1) = None
   \<and> \<not> converged (getRounds raggedGame ! 1)"
proof -
  have h: "length (player2_words raggedGame) \<le> 1 \<and> 1 < length (player1_words raggedGame)"
    by (simp add: raggedGame_def)
  from getRounds_bounded_by_player1 [of raggedGame] h show ?thesis
    by (simp add: raggedGame_def)
qed

end
